theory Spec2Isabelle
  imports Main "HOL-Library.Word"
begin

unbundle bit_operations_syntax

section \<open>The GPU memory manager of \<^verbatim>\<open>video_core/memory_manager.cpp\<close>\<close>

text \<open>
  The development embeds \<^verbatim>\<open>Tegra::MemoryManager\<close>. Every \<^verbatim>\<open>u64\<close>, \<^verbatim>\<open>GPUVAddr\<close>,
  \<^verbatim>\<open>VAddr\<close>, \<^verbatim>\<open>std::size_t\<close> and host pointer is a natural number below \<open>2 ^ 64\<close>;
  an addition that the source performs in 64 bits is written \<open>u64 (a + b)\<close>. A host
  pointer is its address, \<open>0\<close> being \<^verbatim>\<open>nullptr\<close>. A failed \<^verbatim>\<open>ASSERT\<close>, an
  \<^verbatim>\<open>UNREACHABLE()\<close> and every step that C++ leaves undefined (dereferencing an end or
  singular iterator, indexing a vector out of range, copying through a null page
  pointer) ends the operation with a \<open>fault\<close>: operations return \<open>fault + 'a\<close>.
  Log output (\<^verbatim>\<open>LOG_ERROR\<close>, \<^verbatim>\<open>LOG_DEBUG\<close>) is not modelled.
\<close>

subsection \<open>Data\<close>

datatype fault =
    AssertFailed
  | UnreachableCode
  | InvalidIterator
  | OutOfBounds
  | NullPointer

text \<open>\<^verbatim>\<open>Common::PageType\<close>, with the two tags the manager writes and reads.\<close>

datatype PageType = PageUnmapped | PageMemory

text \<open>\<^verbatim>\<open>VirtualMemoryArea::Type\<close>.\<close>

datatype VMAType = Unmapped | Allocated | Mapped

text \<open>
  \<^verbatim>\<open>struct VirtualMemoryArea\<close>. The field \<^verbatim>\<open>size\<close> is \<open>vma_size\<close> and the other
  fields carry the same prefix.
\<close>

record VirtualMemoryArea =
  vma_base :: nat
  vma_size :: nat
  vma_type :: VMAType
  vma_offset :: nat
  vma_backing_memory :: nat
  vma_backing_addr :: nat

text \<open>
  The manager. The header \<^verbatim>\<open>memory_manager.h\<close> with the constants \<^verbatim>\<open>page_bits\<close>,
  \<^verbatim>\<open>address_space_width\<close> and \<^verbatim>\<open>address_space_base\<close> is not among the sources, so the
  three constants are fields that no operation changes. \<open>vma_map\<close> is the
  \<^verbatim>\<open>std::map<GPUVAddr, VirtualMemoryArea>\<close>: the list of its values in key order; the
  key of an entry is always its \<open>vma_base\<close> (an entry is inserted under its base and its
  base is never written afterwards). An iterator is an index into the list, and
  \<^verbatim>\<open>vma_map.end()\<close> is the length of the list. The three vectors of
  \<^verbatim>\<open>Common::PageTable\<close> are functions from the page index; their common length is
  \<open>pointers_size\<close>.
\<close>

record MemoryManager =
  page_bits :: nat
  address_space_width :: nat
  address_space_base :: nat
  vma_map :: "VirtualMemoryArea list"
  pointers :: "nat \<Rightarrow> nat"
  attributes :: "nat \<Rightarrow> PageType"
  backing_addr :: "nat \<Rightarrow> nat"

definition u64 :: "nat \<Rightarrow> nat" where
  "u64 x = x mod 2 ^ 64"

definition page_size :: "MemoryManager \<Rightarrow> nat" where
  "page_size s = 2 ^ page_bits s"

definition page_mask :: "MemoryManager \<Rightarrow> nat" where
  "page_mask s = page_size s - 1"

definition address_space_end :: "MemoryManager \<Rightarrow> nat" where
  "address_space_end s = 2 ^ address_space_width s"

text \<open>
  Modelled from the spec: \<^verbatim>\<open>Common::PageTable::Resize\<close> is not among the sources; the
  spec gives the number of entries as \<open>num_pages = 1 << (W - P)\<close>.
\<close>

definition pointers_size :: "MemoryManager \<Rightarrow> nat" where
  "pointers_size s = 2 ^ (address_space_width s - page_bits s)"

text \<open>
  Modelled from the spec: \<^verbatim>\<open>Common::AlignUp\<close> (\<^verbatim>\<open>common/alignment.h\<close>) is not among the
  sources; the spec says that sizes are rounded up to page granularity. The result is a
  \<^verbatim>\<open>u64\<close>.
\<close>

definition AlignUp :: "nat \<Rightarrow> nat \<Rightarrow> nat" where
  "AlignUp v sz = u64 (v + (sz - v mod sz) mod sz)"

subsection \<open>The page table: \<^verbatim>\<open>MapPages\<close>, \<^verbatim>\<open>MapMemoryRegion\<close>, \<^verbatim>\<open>UnmapRegion\<close>\<close>

text \<open>\<^verbatim>\<open>std::fill(v.begin() + first, v.begin() + last, x)\<close>.\<close>

definition fill :: "(nat \<Rightarrow> 'a) \<Rightarrow> nat \<Rightarrow> nat \<Rightarrow> 'a \<Rightarrow> (nat \<Rightarrow> 'a)" where
  "fill v b e x = (\<lambda>p. if b \<le> p \<and> p < e then x else v p)"

text \<open>
  The loop \<^verbatim>\<open>while (base != end)\<close> of \<^verbatim>\<open>MapPages\<close>, taken when \<^verbatim>\<open>memory\<close> is not
  null. Writing a slot at or past the end of the vectors is a fault.
\<close>

function MapPages_loop ::
  "MemoryManager \<Rightarrow> nat \<Rightarrow> nat \<Rightarrow> nat \<Rightarrow> nat \<Rightarrow> fault + MemoryManager" where
  "MapPages_loop s base e memory backing =
     (if base \<noteq> e then
        (if pointers_size s \<le> base then Inl OutOfBounds
         else MapPages_loop
                (s\<lparr>pointers := (pointers s)(base := memory),
                   backing_addr := (backing_addr s)(base := backing)\<rparr>)
                (base + 1) e (u64 (memory + page_size s)) (u64 (backing + page_size s)))
      else Inr s)"
  by pat_completeness auto
termination
  by (relation "measure (\<lambda>(s, base, e, memory, backing). pointers_size s - base)")
     (auto simp: pointers_size_def)

declare MapPages_loop.simps [simp del]

definition MapPages ::
  "MemoryManager \<Rightarrow> nat \<Rightarrow> nat \<Rightarrow> nat \<Rightarrow> PageType \<Rightarrow> nat \<Rightarrow> fault + MemoryManager" where
  "MapPages s base sz memory type backing =
     (let e = u64 (base + sz) in
      if \<not> e \<le> pointers_size s then Inl AssertFailed
      else if e < base then Inl OutOfBounds
      else
        let s1 = s\<lparr>attributes := fill (attributes s) base e type\<rparr> in
        if memory = 0 then
          Inr (s1\<lparr>pointers := fill (pointers s1) base e memory,
                  backing_addr := fill (backing_addr s1) base e backing\<rparr>)
        else MapPages_loop s1 base e memory backing)"

definition MapMemoryRegion ::
  "MemoryManager \<Rightarrow> nat \<Rightarrow> nat \<Rightarrow> nat \<Rightarrow> nat \<Rightarrow> fault + MemoryManager" where
  "MapMemoryRegion s base sz target backing =
     (if sz AND page_mask s \<noteq> 0 then Inl AssertFailed
      else if base AND page_mask s \<noteq> 0 then Inl AssertFailed
      else MapPages s (base div page_size s) (sz div page_size s) target PageMemory backing)"

text \<open>The fifth argument of \<^verbatim>\<open>MapPages\<close> is left to its default, \<open>0\<close>.\<close>

definition UnmapRegion :: "MemoryManager \<Rightarrow> nat \<Rightarrow> nat \<Rightarrow> fault + MemoryManager" where
  "UnmapRegion s base sz =
     (if sz AND page_mask s \<noteq> 0 then Inl AssertFailed
      else if base AND page_mask s \<noteq> 0 then Inl AssertFailed
      else MapPages s (base div page_size s) (sz div page_size s) 0 PageUnmapped 0)"

definition UpdatePageTableForVMA ::
  "MemoryManager \<Rightarrow> VirtualMemoryArea \<Rightarrow> fault + MemoryManager" where
  "UpdatePageTableForVMA s vma =
     (case vma_type vma of
        Unmapped \<Rightarrow> UnmapRegion s (vma_base vma) (vma_size vma)
      | Allocated \<Rightarrow> MapMemoryRegion s (vma_base vma) (vma_size vma) 0 (vma_backing_addr vma)
      | Mapped \<Rightarrow>
          MapMemoryRegion s (vma_base vma) (vma_size vma) (vma_backing_memory vma)
            (vma_backing_addr vma))"

subsection \<open>The map of areas\<close>

text \<open>
  \<^verbatim>\<open>std::map::upper_bound\<close> and \<^verbatim>\<open>lower_bound\<close>: the index of the first entry whose key
  is greater than (not less than) \<open>k\<close>.
\<close>

definition upper_bound :: "VirtualMemoryArea list \<Rightarrow> nat \<Rightarrow> nat" where
  "upper_bound m k = length (takeWhile (\<lambda>v. vma_base v \<le> k) m)"

definition lower_bound :: "VirtualMemoryArea list \<Rightarrow> nat \<Rightarrow> nat" where
  "lower_bound m k = length (takeWhile (\<lambda>v. vma_base v < k) m)"

text \<open>
  \<^verbatim>\<open>emplace\<close> and \<^verbatim>\<open>emplace_hint\<close>: the entry goes to its place in key order, unless
  the key is present already; the result is the iterator to the entry with that key.
\<close>

fun emplace ::
  "VirtualMemoryArea list \<Rightarrow> VirtualMemoryArea \<Rightarrow> VirtualMemoryArea list \<times> nat" where
  "emplace [] v = ([v], 0)"
| "emplace (x # xs) v =
     (if vma_base v < vma_base x then (v # x # xs, 0)
      else if vma_base v = vma_base x then (x # xs, 0)
      else (case emplace xs v of (ys, i) \<Rightarrow> (x # ys, Suc i)))"

definition erase :: "'a list \<Rightarrow> nat \<Rightarrow> 'a list" where
  "erase m i = take i m @ drop (Suc i) m"

text \<open>\<^verbatim>\<open>std::prev\<close> of \<^verbatim>\<open>begin()\<close> is undefined.\<close>

definition FindVMA :: "MemoryManager \<Rightarrow> nat \<Rightarrow> fault + nat" where
  "FindVMA s target =
     (if target \<ge> address_space_end s then Inr (length (vma_map s))
      else (case upper_bound (vma_map s) target of
              0 \<Rightarrow> Inl InvalidIterator
            | Suc i \<Rightarrow> Inr i))"

definition CanBeMergedWith :: "VirtualMemoryArea \<Rightarrow> VirtualMemoryArea \<Rightarrow> fault + bool" where
  "CanBeMergedWith a next =
     (if u64 (vma_base a + vma_size a) \<noteq> vma_base next then Inl AssertFailed
      else if vma_type a \<noteq> vma_type next then Inr False
      else if vma_type a = Allocated \<and> u64 (vma_offset a + vma_size a) \<noteq> vma_offset next
        then Inr False
      else if vma_type a = Mapped
              \<and> u64 (vma_backing_memory a + vma_size a) \<noteq> vma_backing_memory next
        then Inr False
      else Inr True)"

definition SplitVMA ::
  "VirtualMemoryArea list \<Rightarrow> nat \<Rightarrow> nat \<Rightarrow> fault + (VirtualMemoryArea list \<times> nat)" where
  "SplitVMA m vma_handle offset_in_vma =
     (if length m \<le> vma_handle then Inl InvalidIterator
      else
        let old_vma = m ! vma_handle in
        if \<not> offset_in_vma < vma_size old_vma then Inl AssertFailed
        else if \<not> offset_in_vma > 0 then Inl AssertFailed
        else
          let old_vma' = old_vma\<lparr>vma_size := offset_in_vma\<rparr>;
              new_vma = old_vma\<lparr>vma_base := u64 (vma_base old_vma + offset_in_vma),
                                vma_size := vma_size old_vma - offset_in_vma\<rparr>;
              new_vma' =
                (case vma_type new_vma of
                   Unmapped \<Rightarrow> new_vma
                 | Allocated \<Rightarrow>
                     new_vma\<lparr>vma_offset := u64 (vma_offset new_vma + offset_in_vma)\<rparr>
                 | Mapped \<Rightarrow>
                     new_vma\<lparr>vma_backing_memory :=
                                u64 (vma_backing_memory new_vma + offset_in_vma)\<rparr>)
          in (case CanBeMergedWith old_vma' new_vma' of
                Inl e \<Rightarrow> Inl e
              | Inr ok \<Rightarrow>
                  if \<not> ok then Inl AssertFailed
                  else Inr (emplace (m[vma_handle := old_vma']) new_vma')))"

definition MergeAdjacent ::
  "VirtualMemoryArea list \<Rightarrow> nat \<Rightarrow> fault + (VirtualMemoryArea list \<times> nat)" where
  "MergeAdjacent m iter =
     (if length m \<le> iter then Inl InvalidIterator
      else
        let next_vma = Suc iter in
        (case (if next_vma \<noteq> length m then CanBeMergedWith (m ! iter) (m ! next_vma)
               else Inr False) of
           Inl e \<Rightarrow> Inl e
         | Inr merge_next \<Rightarrow>
             let m1 =
               (if merge_next then
                  erase (m[iter := (m ! iter)\<lparr>vma_size :=
                           u64 (vma_size (m ! iter) + vma_size (m ! next_vma))\<rparr>]) next_vma
                else m)
             in
             if iter \<noteq> 0 then
               let prev_vma = iter - 1 in
               (case CanBeMergedWith (m1 ! prev_vma) (m1 ! iter) of
                  Inl e \<Rightarrow> Inl e
                | Inr merge_prev \<Rightarrow>
                    if merge_prev then
                      Inr (erase (m1[prev_vma := (m1 ! prev_vma)\<lparr>vma_size :=
                                    u64 (vma_size (m1 ! prev_vma) + vma_size (m1 ! iter))\<rparr>])
                             iter,
                           prev_vma)
                    else Inr (m1, iter))
             else Inr (m1, iter)))"

definition Allocate :: "MemoryManager \<Rightarrow> nat \<Rightarrow> fault + (MemoryManager \<times> nat)" where
  "Allocate s vma_handle =
     (if length (vma_map s) \<le> vma_handle then Inl InvalidIterator
      else
        let vma = (vma_map s ! vma_handle)
                    \<lparr>vma_type := Allocated, vma_backing_memory := 0, vma_backing_addr := 0\<rparr>;
            s1 = s\<lparr>vma_map := (vma_map s)[vma_handle := vma]\<rparr>
        in (case UpdatePageTableForVMA s1 vma of
              Inl e \<Rightarrow> Inl e
            | Inr s2 \<Rightarrow>
                (case MergeAdjacent (vma_map s2) vma_handle of
                   Inl e \<Rightarrow> Inl e
                 | Inr (m, iter) \<Rightarrow> Inr (s2\<lparr>vma_map := m\<rparr>, iter))))"

text \<open>
  \<^verbatim>\<open>CarveVMA\<close> and \<^verbatim>\<open>CarveVMARange\<close> return \<^verbatim>\<open>{}\<close>, a value-initialised iterator, on
  their failure paths: the result \<open>None\<close>. \<open>base - vma_base vma\<close> cannot wrap, since
  \<open>FindVMA\<close> returns an entry whose key is at most \<open>base\<close>.
\<close>

definition CarveVMA ::
  "MemoryManager \<Rightarrow> nat \<Rightarrow> nat \<Rightarrow> fault + (MemoryManager \<times> nat option)" where
  "CarveVMA s base sz =
     (if sz AND page_mask s \<noteq> 0 then Inl AssertFailed
      else if base AND page_mask s \<noteq> 0 then Inl AssertFailed
      else
        (case FindVMA s base of
           Inl e \<Rightarrow> Inl e
         | Inr vma_handle \<Rightarrow>
             if vma_handle = length (vma_map s) then Inr (s, None)
             else
               let vma = vma_map s ! vma_handle in
               if vma_type vma = Mapped then Inr (s, Some vma_handle)
               else
                 let start_in_vma = base - vma_base vma;
                     end_in_vma = u64 (start_in_vma + sz)
                 in
                 if \<not> end_in_vma \<le> vma_size vma then Inl AssertFailed
                 else
                   (case (if end_in_vma < vma_size vma
                          then SplitVMA (vma_map s) vma_handle end_in_vma
                          else Inr (vma_map s, vma_handle)) of
                      Inl e \<Rightarrow> Inl e
                    | Inr (m1, unused) \<Rightarrow>
                        (case (if start_in_vma \<noteq> 0
                               then SplitVMA m1 vma_handle start_in_vma
                               else Inr (m1, vma_handle)) of
                           Inl e \<Rightarrow> Inl e
                         | Inr (m2, h) \<Rightarrow> Inr (s\<lparr>vma_map := m2\<rparr>, Some h)))))"

definition CarveVMARange ::
  "MemoryManager \<Rightarrow> nat \<Rightarrow> nat \<Rightarrow> fault + (MemoryManager \<times> nat option)" where
  "CarveVMARange s target sz =
     (if sz AND page_mask s \<noteq> 0 then Inl AssertFailed
      else if target AND page_mask s \<noteq> 0 then Inl AssertFailed
      else
        let target_end = u64 (target + sz) in
        if \<not> target_end \<ge> target then Inl AssertFailed
        else if \<not> sz > 0 then Inl AssertFailed
        else
          (case FindVMA s target of
             Inl e \<Rightarrow> Inl e
           | Inr begin_vma \<Rightarrow>
               let i_end = lower_bound (vma_map s) target_end in
               if list_ex (\<lambda>entry. vma_type entry = Unmapped)
                    (take (i_end - begin_vma) (drop begin_vma (vma_map s)))
               then Inr (s, None)
               else if length (vma_map s) \<le> begin_vma then Inl InvalidIterator
               else
                 (case (if target \<noteq> vma_base (vma_map s ! begin_vma)
                        then SplitVMA (vma_map s) begin_vma
                               (target - vma_base (vma_map s ! begin_vma))
                        else Inr (vma_map s, begin_vma)) of
                    Inl e \<Rightarrow> Inl e
                  | Inr (m1, begin_vma') \<Rightarrow>
                      (case FindVMA (s\<lparr>vma_map := m1\<rparr>) target_end of
                         Inl e \<Rightarrow> Inl e
                       | Inr end_vma \<Rightarrow>
                           (case (if end_vma \<noteq> length m1 \<and> target_end \<noteq> vma_base (m1 ! end_vma)
                                  then SplitVMA m1 end_vma (target_end - vma_base (m1 ! end_vma))
                                  else Inr (m1, end_vma)) of
                              Inl e \<Rightarrow> Inl e
                            | Inr (m2, end_vma') \<Rightarrow>
                                Inr (s\<lparr>vma_map := m2\<rparr>, Some begin_vma'))))))"

definition AllocateMemory ::
  "MemoryManager \<Rightarrow> nat \<Rightarrow> nat \<Rightarrow> nat \<Rightarrow> fault + (MemoryManager \<times> nat)" where
  "AllocateMemory s target offset sz =
     (case CarveVMA s target sz of
        Inl e \<Rightarrow> Inl e
      | Inr (s1, None) \<Rightarrow> Inl InvalidIterator
      | Inr (s1, Some vma_handle) \<Rightarrow>
          if length (vma_map s1) \<le> vma_handle then Inl InvalidIterator
          else
            let vma = vma_map s1 ! vma_handle in
            if vma_size vma \<noteq> sz then Inl AssertFailed
            else
              Allocate
                (s1\<lparr>vma_map := (vma_map s1)[vma_handle := vma\<lparr>vma_offset := offset\<rparr>]\<rparr>)
                vma_handle)"

definition MapBackingMemory ::
  "MemoryManager \<Rightarrow> nat \<Rightarrow> nat \<Rightarrow> nat \<Rightarrow> nat \<Rightarrow> fault + (MemoryManager \<times> nat)" where
  "MapBackingMemory s target memory sz backing =
     (case CarveVMA s target sz of
        Inl e \<Rightarrow> Inl e
      | Inr (s1, None) \<Rightarrow> Inl InvalidIterator
      | Inr (s1, Some vma_handle) \<Rightarrow>
          if length (vma_map s1) \<le> vma_handle then Inl InvalidIterator
          else
            let vma0 = vma_map s1 ! vma_handle in
            if vma_size vma0 \<noteq> sz then Inl AssertFailed
            else
              let vma = vma0\<lparr>vma_type := Mapped, vma_backing_memory := memory,
                              vma_backing_addr := backing\<rparr>;
                  s2 = s1\<lparr>vma_map := (vma_map s1)[vma_handle := vma]\<rparr>
              in (case UpdatePageTableForVMA s2 vma of
                    Inl e \<Rightarrow> Inl e
                  | Inr s3 \<Rightarrow>
                      (case MergeAdjacent (vma_map s3) vma_handle of
                         Inl e \<Rightarrow> Inl e
                       | Inr (m, iter) \<Rightarrow> Inr (s3\<lparr>vma_map := m\<rparr>, iter))))"

text \<open>
  The loop of \<^verbatim>\<open>UnmapRange\<close>. The iterator \<^verbatim>\<open>end\<close> taken before the loop stays the end of
  the map while entries are erased, so the test \<^verbatim>\<open>vma != end\<close> is against the current
  length.
\<close>

function UnmapRange_loop :: "MemoryManager \<Rightarrow> nat \<Rightarrow> nat \<Rightarrow> fault + MemoryManager" where
  "UnmapRange_loop s vma target_end =
     (if vma < length (vma_map s) \<and> vma_base (vma_map s ! vma) < target_end then
        (case Allocate s vma of
           Inl e \<Rightarrow> Inl e
         | Inr (s', iter) \<Rightarrow> UnmapRange_loop s' (Suc iter) target_end)
      else Inr s)"
  by pat_completeness auto

definition UnmapRange :: "MemoryManager \<Rightarrow> nat \<Rightarrow> nat \<Rightarrow> fault + MemoryManager" where
  "UnmapRange s target sz =
     (case CarveVMARange s target sz of
        Inl e \<Rightarrow> Inl e
      | Inr (s1, None) \<Rightarrow> Inl InvalidIterator
      | Inr (s1, Some vma) \<Rightarrow>
          let target_end = u64 (target + sz) in
          (case UnmapRange_loop s1 vma target_end of
             Inl e \<Rightarrow> Inl e
           | Inr s2 \<Rightarrow>
               (case FindVMA s2 target of
                  Inl e \<Rightarrow> Inl e
                | Inr h \<Rightarrow>
                    if length (vma_map s2) \<le> h then Inl InvalidIterator
                    else if \<not> vma_size (vma_map s2 ! h) \<ge> sz then Inl AssertFailed
                    else Inr s2)))"

definition FindFreeRegion :: "MemoryManager \<Rightarrow> nat \<Rightarrow> nat \<Rightarrow> nat" where
  "FindFreeRegion s region_start sz =
     (case find (\<lambda>vma.
                   if vma_type vma \<noteq> Unmapped then False
                   else
                     let vma_end = u64 (vma_base vma + vma_size vma) in
                     vma_end > region_start \<and> vma_end \<ge> u64 (region_start + sz))
             (vma_map s) of
        None \<Rightarrow> 0
      | Some vma \<Rightarrow> max region_start (vma_base vma))"

definition IsAddressValid :: "MemoryManager \<Rightarrow> nat \<Rightarrow> bool" where
  "IsAddressValid s addr \<longleftrightarrow> drop_bit (page_bits s) addr < pointers_size s"

definition GpuToCpuAddress :: "MemoryManager \<Rightarrow> nat \<Rightarrow> nat option" where
  "GpuToCpuAddress s addr =
     (if \<not> IsAddressValid s addr then None
      else
        let cpu_addr = backing_addr s (drop_bit (page_bits s) addr) in
        if cpu_addr \<noteq> 0 then Some (u64 (cpu_addr + (addr AND page_mask s))) else None)"

definition GetPointer :: "MemoryManager \<Rightarrow> nat \<Rightarrow> nat" where
  "GetPointer s addr =
     (if \<not> IsAddressValid s addr then 0
      else
        let page_pointer = pointers s (drop_bit (page_bits s) addr) in
        if page_pointer \<noteq> 0 then u64 (page_pointer + (addr AND page_mask s)) else 0)"

subsection \<open>The public operations on the address space\<close>

text \<open>
  The calls the rasterizer and the GPU receive. Modelled from the spec: \<^verbatim>\<open>ToCacheAddr\<close> is
  not among the sources; the spec calls it a deterministic projection of the host pointer,
  of which only equality and contiguity matter, so it is the address itself.
\<close>

datatype callout =
    FlushRegion nat nat
  | InvalidateRegion nat nat
  | FlushAndInvalidateRegion nat nat

definition ToCacheAddr :: "nat \<Rightarrow> nat" where
  "ToCacheAddr host_ptr = host_ptr"

text \<open>
  The constructor. Modelled from the spec: the member initialisers of
  \<^verbatim>\<open>VirtualMemoryArea\<close> are in the missing header; the spec gives the initial area as
  \<open>{base: 0, size: address_space_end, type: Unmapped}\<close>, and a new page table holds null
  pointers, the tag \<open>Unmapped\<close> and zero backing addresses.
\<close>

definition MemoryManager_new :: "nat \<Rightarrow> nat \<Rightarrow> nat \<Rightarrow> fault + MemoryManager" where
  "MemoryManager_new bits width space_base =
     (let s0 = \<lparr>page_bits = bits, address_space_width = width,
                 address_space_base = space_base, vma_map = [],
                 pointers = (\<lambda>p. 0), attributes = (\<lambda>p. PageUnmapped),
                 backing_addr = (\<lambda>p. 0)\<rparr>;
          initial_vma = \<lparr>vma_base = 0, vma_size = address_space_end s0, vma_type = Unmapped,
                          vma_offset = 0, vma_backing_memory = 0, vma_backing_addr = 0\<rparr>;
          s1 = s0\<lparr>vma_map := fst (emplace (vma_map s0) initial_vma)\<rparr>
      in UpdatePageTableForVMA s1 initial_vma)"

text \<open>
  \<^verbatim>\<open>AllocateSpace(size, align)\<close> and \<^verbatim>\<open>AllocateSpace(gpu_addr, size, align)\<close>; neither
  reads \<^verbatim>\<open>align\<close>.
\<close>

definition AllocateSpace :: "MemoryManager \<Rightarrow> nat \<Rightarrow> fault + (MemoryManager \<times> nat)" where
  "AllocateSpace s sz =
     (let aligned_size = AlignUp sz (page_size s);
          gpu_addr = FindFreeRegion s (address_space_base s) aligned_size
      in (case AllocateMemory s gpu_addr 0 aligned_size of
            Inl e \<Rightarrow> Inl e
          | Inr (s', h) \<Rightarrow> Inr (s', gpu_addr)))"

definition AllocateSpace_at ::
  "MemoryManager \<Rightarrow> nat \<Rightarrow> nat \<Rightarrow> fault + (MemoryManager \<times> nat)" where
  "AllocateSpace_at s gpu_addr sz =
     (let aligned_size = AlignUp sz (page_size s)
      in (case AllocateMemory s gpu_addr 0 aligned_size of
            Inl e \<Rightarrow> Inl e
          | Inr (s', h) \<Rightarrow> Inr (s', gpu_addr)))"

text \<open>
  \<^verbatim>\<open>MapBufferEx(cpu_addr, size)\<close> and \<^verbatim>\<open>MapBufferEx(cpu_addr, gpu_addr, size)\<close>. What the
  rest of the emulator answers is an argument: \<open>memory\<close> is the host pointer
  \<^verbatim>\<open>system.Memory().GetPointer(cpu_addr)\<close>, and \<open>attr_ok\<close> says whether
  \<^verbatim>\<open>SetMemoryAttribute\<close> succeeded.
\<close>

definition MapBufferEx ::
  "MemoryManager \<Rightarrow> nat \<Rightarrow> bool \<Rightarrow> nat \<Rightarrow> nat \<Rightarrow> fault + (MemoryManager \<times> nat)" where
  "MapBufferEx s memory attr_ok cpu_addr sz =
     (let aligned_size = AlignUp sz (page_size s);
          gpu_addr = FindFreeRegion s (address_space_base s) aligned_size
      in (case MapBackingMemory s gpu_addr memory aligned_size cpu_addr of
            Inl e \<Rightarrow> Inl e
          | Inr (s', h) \<Rightarrow> if \<not> attr_ok then Inl AssertFailed else Inr (s', gpu_addr)))"

definition MapBufferEx_at ::
  "MemoryManager \<Rightarrow> nat \<Rightarrow> bool \<Rightarrow> nat \<Rightarrow> nat \<Rightarrow> nat \<Rightarrow> fault + (MemoryManager \<times> nat)" where
  "MapBufferEx_at s memory attr_ok cpu_addr gpu_addr sz =
     (if gpu_addr AND page_mask s \<noteq> 0 then Inl AssertFailed
      else
        let aligned_size = AlignUp sz (page_size s)
        in (case MapBackingMemory s gpu_addr memory aligned_size cpu_addr of
              Inl e \<Rightarrow> Inl e
            | Inr (s', h) \<Rightarrow> if \<not> attr_ok then Inl AssertFailed else Inr (s', gpu_addr)))"

text \<open>\<^verbatim>\<open>UnmapBuffer\<close> returns the call it made to the GPU, the new state and the address.\<close>

definition UnmapBuffer ::
  "MemoryManager \<Rightarrow> bool \<Rightarrow> nat \<Rightarrow> nat \<Rightarrow> fault + (callout list \<times> MemoryManager \<times> nat)" where
  "UnmapBuffer s attr_ok gpu_addr sz =
     (if gpu_addr AND page_mask s \<noteq> 0 then Inl AssertFailed
      else
        let aligned_size = AlignUp sz (page_size s);
            cache_addr = ToCacheAddr (GetPointer s gpu_addr);
            cpu_addr = GpuToCpuAddress s gpu_addr
        in
        if cpu_addr = None then Inl AssertFailed
        else
          (case UnmapRange s gpu_addr aligned_size of
             Inl e \<Rightarrow> Inl e
           | Inr s' \<Rightarrow>
               if \<not> attr_ok then Inl AssertFailed
               else Inr ([FlushAndInvalidateRegion cache_addr aligned_size], s', gpu_addr)))"

subsection \<open>Access to host memory\<close>

text \<open>
  Host memory is a function from host addresses to bytes. A typed value \<^verbatim>\<open>T\<close> is the
  list of the \<^verbatim>\<open>sizeof(T)\<close> bytes of its object representation, which is what
  \<^verbatim>\<open>std::memcpy\<close> moves; the value zero is the list of zero bytes.
\<close>

type_synonym u8 = "8 word"

definition read_bytes :: "(nat \<Rightarrow> u8) \<Rightarrow> nat \<Rightarrow> nat \<Rightarrow> u8 list" where
  "read_bytes h ptr n = map (\<lambda>i. h (u64 (ptr + i))) [0..<n]"

fun write_bytes :: "(nat \<Rightarrow> u8) \<Rightarrow> nat \<Rightarrow> u8 list \<Rightarrow> (nat \<Rightarrow> u8)" where
  "write_bytes h ptr [] = h"
| "write_bytes h ptr (b # bs) = write_bytes (h(ptr := b)) (u64 (ptr + 1)) bs"

definition Read :: "MemoryManager \<Rightarrow> (nat \<Rightarrow> u8) \<Rightarrow> nat \<Rightarrow> nat \<Rightarrow> fault + u8 list" where
  "Read s h sizeof_T addr =
     (if \<not> IsAddressValid s addr then Inr (replicate sizeof_T 0)
      else
        let page_pointer = pointers s (drop_bit (page_bits s) addr) in
        if page_pointer \<noteq> 0 then
          Inr (read_bytes h (u64 (page_pointer + (addr AND page_mask s))) sizeof_T)
        else
          (case attributes s (drop_bit (page_bits s) addr) of
             PageUnmapped \<Rightarrow> Inr (replicate sizeof_T 0)
           | PageMemory \<Rightarrow> Inl AssertFailed))"

definition Write ::
  "MemoryManager \<Rightarrow> (nat \<Rightarrow> u8) \<Rightarrow> nat \<Rightarrow> u8 list \<Rightarrow> fault + (nat \<Rightarrow> u8)" where
  "Write s h addr data =
     (if \<not> IsAddressValid s addr then Inr h
      else
        let page_pointer = pointers s (drop_bit (page_bits s) addr) in
        if page_pointer \<noteq> 0 then
          Inr (write_bytes h (u64 (page_pointer + (addr AND page_mask s))) data)
        else
          (case attributes s (drop_bit (page_bits s) addr) of
             PageUnmapped \<Rightarrow> Inr h
           | PageMemory \<Rightarrow> Inl AssertFailed))"

text \<open>
  The block operations walk the pages of the range. The arguments of a loop are the
  variables \<^verbatim>\<open>page_index\<close>, \<^verbatim>\<open>page_offset\<close> and \<^verbatim>\<open>remaining_size\<close>; the result holds the
  calls made to the rasterizer, in order, and the bytes written to the destination buffer
  (for a read) or the new host memory (for a write). The vectors are indexed without a
  test, so an index past their end is the fault \<open>OutOfBounds\<close>; \<^verbatim>\<open>ReadBlock\<close> and
  \<^verbatim>\<open>WriteBlock\<close> add \<^verbatim>\<open>page_offset\<close> to the page pointer without a test, so a null page
  pointer there is the fault \<open>NullPointer\<close>.
\<close>

lemma page_walk_progress:
  fixes r b off :: nat
  assumes "0 < r" and "\<not> r - (2 ^ b - off) < r"
  shows "0 < off"
proof (rule ccontr)
  assume "\<not> 0 < off"
  then have "off = 0" by simp
  moreover have "(0::nat) < 2 ^ b" by simp
  ultimately have "r - (2 ^ b - off) < r" using assms(1) by simp
  with assms(2) show False by simp
qed

function ReadBlock_loop ::
  "MemoryManager \<Rightarrow> (nat \<Rightarrow> u8) \<Rightarrow> nat \<Rightarrow> nat \<Rightarrow> nat \<Rightarrow> fault + (callout list \<times> u8 list)" where
  "ReadBlock_loop s h page_index page_offset remaining_size =
     (if remaining_size > 0 then
        let copy_amount = min (page_size s - page_offset) remaining_size in
        if pointers_size s \<le> page_index then Inl OutOfBounds
        else
          (case attributes s page_index of
             PageMemory \<Rightarrow>
               if pointers s page_index = 0 then Inl NullPointer
               else
                 let src_ptr = u64 (pointers s page_index + page_offset) in
                 (case ReadBlock_loop s h (page_index + 1) 0 (remaining_size - copy_amount) of
                    Inl e \<Rightarrow> Inl e
                  | Inr (calls, bytes) \<Rightarrow>
                      Inr (FlushRegion (ToCacheAddr src_ptr) copy_amount # calls,
                           read_bytes h src_ptr copy_amount @ bytes))
           | PageUnmapped \<Rightarrow> Inl UnreachableCode)
      else Inr ([], []))"
  by pat_completeness auto
termination
  by (relation "measures [\<lambda>(s, h, i, off, r). r, \<lambda>(s, h, i, off, r). off]")
     (auto simp: page_size_def min_def split: if_splits intro: page_walk_progress)

declare ReadBlock_loop.simps [simp del]

definition ReadBlock ::
  "MemoryManager \<Rightarrow> (nat \<Rightarrow> u8) \<Rightarrow> nat \<Rightarrow> nat \<Rightarrow> fault + (callout list \<times> u8 list)" where
  "ReadBlock s h src_addr sz =
     ReadBlock_loop s h (drop_bit (page_bits s) src_addr) (src_addr AND page_mask s) sz"

function ReadBlockUnsafe_loop ::
  "MemoryManager \<Rightarrow> (nat \<Rightarrow> u8) \<Rightarrow> nat \<Rightarrow> nat \<Rightarrow> nat \<Rightarrow> fault + (callout list \<times> u8 list)" where
  "ReadBlockUnsafe_loop s h page_index page_offset remaining_size =
     (if remaining_size > 0 then
        let copy_amount = min (page_size s - page_offset) remaining_size in
        if pointers_size s \<le> page_index then Inl OutOfBounds
        else
          let page_pointer = pointers s page_index;
              copied =
                (if page_pointer \<noteq> 0 then
                   read_bytes h (u64 (page_pointer + page_offset)) copy_amount
                 else replicate copy_amount 0)
          in
          (case ReadBlockUnsafe_loop s h (page_index + 1) 0 (remaining_size - copy_amount) of
             Inl e \<Rightarrow> Inl e
           | Inr (calls, bytes) \<Rightarrow> Inr (calls, copied @ bytes))
      else Inr ([], []))"
  by pat_completeness auto
termination
  by (relation "measures [\<lambda>(s, h, i, off, r). r, \<lambda>(s, h, i, off, r). off]")
     (auto simp: page_size_def min_def split: if_splits intro: page_walk_progress)

declare ReadBlockUnsafe_loop.simps [simp del]

definition ReadBlockUnsafe ::
  "MemoryManager \<Rightarrow> (nat \<Rightarrow> u8) \<Rightarrow> nat \<Rightarrow> nat \<Rightarrow> fault + (callout list \<times> u8 list)" where
  "ReadBlockUnsafe s h src_addr sz =
     ReadBlockUnsafe_loop s h (drop_bit (page_bits s) src_addr) (src_addr AND page_mask s) sz"

text \<open>
  \<^verbatim>\<open>WriteBlock\<close> reads \<^verbatim>\<open>size\<close> bytes from the source buffer, here the list
  \<open>src_buffer\<close>, which the caller provides with at least that length.
\<close>

function WriteBlock_loop ::
  "MemoryManager \<Rightarrow> (nat \<Rightarrow> u8) \<Rightarrow> nat \<Rightarrow> nat \<Rightarrow> u8 list \<Rightarrow> nat
     \<Rightarrow> fault + (callout list \<times> (nat \<Rightarrow> u8))" where
  "WriteBlock_loop s h page_index page_offset src_buffer remaining_size =
     (if remaining_size > 0 then
        let copy_amount = min (page_size s - page_offset) remaining_size in
        if pointers_size s \<le> page_index then Inl OutOfBounds
        else
          (case attributes s page_index of
             PageMemory \<Rightarrow>
               if pointers s page_index = 0 then Inl NullPointer
               else
                 let dest_ptr = u64 (pointers s page_index + page_offset) in
                 (case WriteBlock_loop s
                         (write_bytes h dest_ptr (take copy_amount src_buffer))
                         (page_index + 1) 0 (drop copy_amount src_buffer)
                         (remaining_size - copy_amount) of
                    Inl e \<Rightarrow> Inl e
                  | Inr (calls, h') \<Rightarrow>
                      Inr (InvalidateRegion (ToCacheAddr dest_ptr) copy_amount # calls, h'))
           | PageUnmapped \<Rightarrow> Inl UnreachableCode)
      else Inr ([], h))"
  by pat_completeness auto
termination
  by (relation "measures [\<lambda>(s, h, i, off, b, r). r, \<lambda>(s, h, i, off, b, r). off]")
     (auto simp: page_size_def min_def split: if_splits intro: page_walk_progress)

declare WriteBlock_loop.simps [simp del]

definition WriteBlock ::
  "MemoryManager \<Rightarrow> (nat \<Rightarrow> u8) \<Rightarrow> nat \<Rightarrow> u8 list \<Rightarrow> nat
     \<Rightarrow> fault + (callout list \<times> (nat \<Rightarrow> u8))" where
  "WriteBlock s h dest_addr src_buffer sz =
     WriteBlock_loop s h (drop_bit (page_bits s) dest_addr) (dest_addr AND page_mask s)
       src_buffer sz"

subsection \<open>Example states\<close>

text \<open>
  The states used to run the model on concrete inputs, with the constants of the spec's
  scenarios: \<open>page_bits = 12\<close>, \<open>address_space_width = 40\<close>, \<open>address_space_base = 0\<close>.
  \<open>fresh\<close> is the manager as its constructor leaves it.
\<close>

definition fresh :: MemoryManager where
  "fresh =
     \<lparr>page_bits = 12, address_space_width = 40, address_space_base = 0,
      vma_map = [\<lparr>vma_base = 0, vma_size = 2 ^ 40, vma_type = Unmapped, vma_offset = 0,
                  vma_backing_memory = 0, vma_backing_addr = 0\<rparr>],
      pointers = fill (\<lambda>p. 0) 0 (2 ^ 28) 0,
      attributes = fill (\<lambda>p. PageUnmapped) 0 (2 ^ 28) PageUnmapped,
      backing_addr = fill (\<lambda>p. 0) 0 (2 ^ 28) 0\<rparr>"

text \<open>An allocated area of three pages at address \<open>0\<close>.\<close>

definition allocated_3pages :: VirtualMemoryArea where
  "allocated_3pages =
     \<lparr>vma_base = 0, vma_size = 0x3000, vma_type = Allocated, vma_offset = 0,
      vma_backing_memory = 0, vma_backing_addr = 0\<rparr>"

text \<open>\<open>fresh\<close> after \<^verbatim>\<open>AllocateSpace(0x3000)\<close>.\<close>

definition alloc3 :: MemoryManager where
  "alloc3 =
     fresh\<lparr>vma_map :=
              [allocated_3pages,
               \<lparr>vma_base = 0x3000, vma_size = 2 ^ 40 - 0x3000, vma_type = Unmapped,
                vma_offset = 0, vma_backing_memory = 0, vma_backing_addr = 0\<rparr>],
            pointers := fill (pointers fresh) 0 3 0,
            attributes := fill (attributes fresh) 0 3 PageMemory,
            backing_addr := fill (backing_addr fresh) 0 3 0\<rparr>"

text \<open>\<open>alloc3\<close> after \<^verbatim>\<open>AllocateSpace(0x4000, 0x1000)\<close>: a free page between two allocations.\<close>

definition alloc3_gap :: MemoryManager where
  "alloc3_gap =
     alloc3\<lparr>vma_map :=
              [allocated_3pages,
               \<lparr>vma_base = 0x3000, vma_size = 0x1000, vma_type = Unmapped,
                vma_offset = 0, vma_backing_memory = 0, vma_backing_addr = 0\<rparr>,
               \<lparr>vma_base = 0x4000, vma_size = 0x1000, vma_type = Allocated,
                vma_offset = 0, vma_backing_memory = 0, vma_backing_addr = 0\<rparr>,
               \<lparr>vma_base = 0x5000, vma_size = 2 ^ 40 - 0x5000, vma_type = Unmapped,
                vma_offset = 0, vma_backing_memory = 0, vma_backing_addr = 0\<rparr>],
            pointers := fill (pointers alloc3) 4 5 0,
            attributes := fill (attributes alloc3) 4 5 PageMemory,
            backing_addr := fill (backing_addr alloc3) 4 5 0\<rparr>"

text \<open>
  \<open>fresh\<close> after \<^verbatim>\<open>MapBufferEx(0x100000, 0x1000)\<close>, the host pointer of the buffer being
  \<open>0x7000000\<close>.
\<close>

definition mapped1 :: MemoryManager where
  "mapped1 =
     fresh\<lparr>vma_map :=
              [\<lparr>vma_base = 0, vma_size = 0x1000, vma_type = Mapped,
                vma_offset = 0, vma_backing_memory = 0x7000000, vma_backing_addr = 0x100000\<rparr>,
               \<lparr>vma_base = 0x1000, vma_size = 2 ^ 40 - 0x1000, vma_type = Unmapped,
                vma_offset = 0, vma_backing_memory = 0, vma_backing_addr = 0\<rparr>],
            pointers := (pointers fresh)(0 := 0x7000000),
            attributes := fill (attributes fresh) 0 1 PageMemory,
            backing_addr := (backing_addr fresh)(0 := 0x100000)\<rparr>"

text \<open>\<open>mapped1\<close> after \<^verbatim>\<open>AllocateSpace\<close> of all the remaining space.\<close>

definition full :: MemoryManager where
  "full =
     mapped1\<lparr>vma_map :=
              [\<lparr>vma_base = 0, vma_size = 0x1000, vma_type = Mapped,
                vma_offset = 0, vma_backing_memory = 0x7000000, vma_backing_addr = 0x100000\<rparr>,
               \<lparr>vma_base = 0x1000, vma_size = 2 ^ 40 - 0x1000, vma_type = Allocated,
                vma_offset = 0, vma_backing_memory = 0, vma_backing_addr = 0\<rparr>],
            pointers := fill (pointers mapped1) 1 (2 ^ 28) 0,
            attributes := fill (attributes mapped1) 1 (2 ^ 28) PageMemory,
            backing_addr := fill (backing_addr mapped1) 1 (2 ^ 28) 0\<rparr>"

text \<open>\<open>alloc3\<close> after \<^verbatim>\<open>MapBufferEx(0x100000, 0, 0x1000)\<close>.\<close>

definition mapped_head :: MemoryManager where
  "mapped_head =
     alloc3\<lparr>vma_map :=
              [\<lparr>vma_base = 0, vma_size = 0x1000, vma_type = Mapped,
                vma_offset = 0, vma_backing_memory = 0x7000000, vma_backing_addr = 0x100000\<rparr>,
               \<lparr>vma_base = 0x1000, vma_size = 0x2000, vma_type = Allocated,
                vma_offset = 0x1000, vma_backing_memory = 0, vma_backing_addr = 0\<rparr>,
               \<lparr>vma_base = 0x3000, vma_size = 2 ^ 40 - 0x3000, vma_type = Unmapped,
                vma_offset = 0, vma_backing_memory = 0, vma_backing_addr = 0\<rparr>],
            pointers := (pointers alloc3)(0 := 0x7000000),
            attributes := fill (attributes alloc3) 0 1 PageMemory,
            backing_addr := (backing_addr alloc3)(0 := 0x100000)\<rparr>"

text \<open>\<open>mapped_head\<close> after \<^verbatim>\<open>UnmapBuffer(0, 0x2000)\<close>.\<close>

definition unmapped_head :: MemoryManager where
  "unmapped_head =
     mapped_head\<lparr>vma_map :=
              [\<lparr>vma_base = 0, vma_size = 0x2000, vma_type = Allocated,
                vma_offset = 0, vma_backing_memory = 0, vma_backing_addr = 0\<rparr>,
               \<lparr>vma_base = 0x2000, vma_size = 0x1000, vma_type = Allocated,
                vma_offset = 0x2000, vma_backing_memory = 0, vma_backing_addr = 0\<rparr>,
               \<lparr>vma_base = 0x3000, vma_size = 2 ^ 40 - 0x3000, vma_type = Unmapped,
                vma_offset = 0, vma_backing_memory = 0, vma_backing_addr = 0\<rparr>],
            pointers := fill (pointers mapped_head) 0 1 0,
            attributes := fill (attributes mapped_head) 0 1 PageMemory,
            backing_addr := fill (backing_addr mapped_head) 0 1 0\<rparr>"


subsection \<open>The host address of a GPU address\<close>


section \<open>Termination of the loop of \<^verbatim>\<open>UnmapRange\<close>\<close>

text \<open>
  Every turn of the loop leaves fewer entries behind the iterator: \<^verbatim>\<open>Allocate\<close> returns
  an iterator to the processed entry, which \<^verbatim>\<open>MergeAdjacent\<close> may have joined with its
  neighbours, and the loop steps past it.
\<close>

lemma length_erase: "length (erase m i) = (if i < length m then length m - 1 else length m)"
  by (auto simp: erase_def)

lemma MergeAdjacent_measure:
  "MergeAdjacent m i = Inr (m', it) \<Longrightarrow> length m' - Suc it < length m - i"
  by (auto simp: MergeAdjacent_def length_erase Let_def split: if_splits sum.splits)

lemma MapPages_loop_frame:
  "MapPages_loop s b e mem bk = Inr s' \<Longrightarrow>
     vma_map s' = vma_map s \<and> page_bits s' = page_bits s
     \<and> address_space_width s' = address_space_width s
     \<and> address_space_base s' = address_space_base s \<and> attributes s' = attributes s"
proof (induction s b e mem bk rule: MapPages_loop.induct)
  case (1 s base e memory backing)
  show ?case
  proof (cases "base \<noteq> e \<and> \<not> pointers_size s \<le> base")
    case True
    with "1.prems" have "MapPages_loop
                (s\<lparr>pointers := (pointers s)(base := memory),
                   backing_addr := (backing_addr s)(base := backing)\<rparr>)
                (base + 1) e (u64 (memory + page_size s)) (u64 (backing + page_size s)) = Inr s'"
      by (subst (asm) MapPages_loop.simps) simp
    with True "1.IH" show ?thesis by simp
  next
    case False
    with "1.prems" show ?thesis
      by (subst (asm) MapPages_loop.simps) (auto split: if_splits)
  qed
qed

lemma MapPages_frame:
  "MapPages s b n mem ty bk = Inr s' \<Longrightarrow>
     vma_map s' = vma_map s \<and> page_bits s' = page_bits s
     \<and> address_space_width s' = address_space_width s
     \<and> address_space_base s' = address_space_base s"
  by (auto simp: MapPages_def Let_def split: if_splits dest!: MapPages_loop_frame)

lemma UpdatePageTableForVMA_frame:
  "UpdatePageTableForVMA s v = Inr s' \<Longrightarrow>
     vma_map s' = vma_map s \<and> page_bits s' = page_bits s
     \<and> address_space_width s' = address_space_width s
     \<and> address_space_base s' = address_space_base s"
  by (auto simp: UpdatePageTableForVMA_def MapMemoryRegion_def UnmapRegion_def
           split: VMAType.splits if_splits dest!: MapPages_frame)

lemma Allocate_measure:
  "Allocate s i = Inr (s', it) \<Longrightarrow> length (vma_map s') - Suc it < length (vma_map s) - i"
  by (auto simp: Allocate_def Let_def split: if_splits sum.splits
           dest!: MergeAdjacent_measure UpdatePageTableForVMA_frame)

termination UnmapRange_loop
  apply (relation "measure (\<lambda>(s, vma, te). length (vma_map s) - vma)")
   apply simp
  apply (elim conjE)
  apply hypsubst_thin
  apply (drule Allocate_measure)
  apply simp
  done

declare UnmapRange_loop.simps [simp del]

section \<open>Arithmetic of pages and of 64-bit values\<close>

lemma page_size_pos: "0 < page_size s"
  by (simp add: page_size_def)

lemma and_page_mask: "a AND page_mask s = a mod page_size s"
proof -
  have "page_mask s = mask (page_bits s)"
    by (simp only: page_mask_def page_size_def mask_eq_exp_minus_1)
  then show ?thesis
    by (simp only: page_size_def take_bit_eq_mod [symmetric] take_bit_eq_mask)
qed

lemma drop_page_bits: "drop_bit (page_bits s) a = a div page_size s"
  by (simp add: page_size_def drop_bit_eq_div)

lemma u64_id: "x < 2 ^ 64 \<Longrightarrow> u64 x = x"
  by (simp add: u64_def)

lemma u64_add_no_wrap:
  assumes "a < 2 ^ 64" "b < 2 ^ 64" "a \<le> u64 (a + b)"
  shows "u64 (a + b) = a + b"
proof (rule ccontr)
  assume ne: "u64 (a + b) \<noteq> a + b"
  then have ge: "2 ^ 64 \<le> a + b" by (cases "a + b < 2 ^ 64") (simp_all add: u64_def)
  have lt: "a + b < 2 * 2 ^ 64" using assms by simp
  have "(a + b) mod 2 ^ 64 = a + b - 2 ^ 64"
    using ge lt by (simp add: mod_if)
  then have "u64 (a + b) = a + b - 2 ^ 64" by (simp only: u64_def)
  with assms(3) have "a \<le> a + b - 2 ^ 64" by simp
  with ge assms(2) show False by linarith
qed

lemma div_page_size_u64: "a < 2 ^ 64 \<Longrightarrow> a div page_size s < 2 ^ 64"
  by (meson div_le_dividend order_le_less_trans)

text \<open>The equations that run the model on a concrete state.\<close>

lemmas mm_eval =
  u64_def page_size_def address_space_end_def pointers_size_def AlignUp_def
  and_page_mask drop_page_bits
  MapPages_def MapMemoryRegion_def UnmapRegion_def UpdatePageTableForVMA_def
  upper_bound_def lower_bound_def erase_def FindVMA_def CanBeMergedWith_def SplitVMA_def
  MergeAdjacent_def Allocate_def CarveVMA_def CarveVMARange_def AllocateMemory_def
  MapBackingMemory_def UnmapRange_def FindFreeRegion_def IsAddressValid_def
  GpuToCpuAddress_def GetPointer_def ToCacheAddr_def MemoryManager_new_def
  AllocateSpace_def AllocateSpace_at_def MapBufferEx_def MapBufferEx_at_def UnmapBuffer_def
  Let_def

lemma fresh_new: "MemoryManager_new 12 40 0 = Inr fresh"
  by (simp add: fresh_def mm_eval)

lemma alloc3_run: "AllocateSpace fresh 0x3000 = Inr (alloc3, 0)"
  by (simp add: alloc3_def allocated_3pages_def fresh_def mm_eval)

lemmas ex_defs = fresh_def allocated_3pages_def alloc3_def alloc3_gap_def mapped1_def full_def
  mapped_head_def unmapped_head_def

lemma alloc3_gap_run: "AllocateSpace_at alloc3 0x4000 0x1000 = Inr (alloc3_gap, 0x4000)"
  by (simp add: ex_defs mm_eval)

lemma mapped1_run: "MapBufferEx fresh 0x7000000 True 0x100000 0x1000 = Inr (mapped1, 0)"
  by (simp add: ex_defs mm_eval MapPages_loop.simps)

lemma full_run: "AllocateSpace mapped1 (2 ^ 40 - 0x1000) = Inr (full, 0x1000)"
  by (simp add: ex_defs mm_eval)

lemma mapped_head_run:
  "MapBufferEx_at alloc3 0x7000000 True 0x100000 0 0x1000 = Inr (mapped_head, 0)"
  by (simp add: ex_defs mm_eval MapPages_loop.simps)

lemma unmapped_head_run:
  "UnmapBuffer mapped_head True 0 0x2000
     = Inr ([FlushAndInvalidateRegion 0x7000000 0x2000], unmapped_head, 0)"
  by (simp add: ex_defs mm_eval UnmapRange_loop.simps)


section \<open>The page-table projection of an allocated area\<close>

lemma MapPages_null:
  assumes "MapPages s b n 0 ty bk = Inr s'"
  shows "s' = s\<lparr>attributes := fill (attributes s) b (u64 (b + n)) ty,
                 pointers := fill (pointers s) b (u64 (b + n)) 0,
                 backing_addr := fill (backing_addr s) b (u64 (b + n)) bk\<rparr>
         \<and> b \<le> u64 (b + n) \<and> u64 (b + n) \<le> pointers_size s"
  using assms by (auto simp: MapPages_def Let_def split: if_splits)

text \<open>
  Claim C1, as amended. For an area of type \<open>Allocated\<close> (with 64-bit base and size),
  whenever \<^verbatim>\<open>UpdatePageTableForVMA\<close> returns, every page \<open>p\<close> of the area has
  \<open>attributes[p] = Memory\<close>, \<open>pointers[p] = nullptr\<close> and \<open>backing_addr[p]\<close> equal to the
  area's \<open>backing_addr\<close>: the projection goes through \<^verbatim>\<open>MapMemoryRegion\<close>, which tags
  the pages \<open>Memory\<close>, not through \<^verbatim>\<open>UnmapRegion\<close>.
\<close>

theorem UpdatePageTableForVMA_Allocated:
  assumes "vma_type vma = Allocated"
    and "vma_base vma < 2 ^ 64" and "vma_size vma < 2 ^ 64"
    and "UpdatePageTableForVMA s vma = Inr s'"
    and "vma_base vma div page_size s \<le> p"
    and "p < vma_base vma div page_size s + vma_size vma div page_size s"
  shows "attributes s' p = PageMemory \<and> pointers s' p = 0
         \<and> backing_addr s' p = vma_backing_addr vma"
proof -
  let ?b = "vma_base vma div page_size s" and ?n = "vma_size vma div page_size s"
  from assms(1,4) have mp: "MapPages s ?b ?n 0 PageMemory (vma_backing_addr vma) = Inr s'"
    by (simp add: UpdatePageTableForVMA_def MapMemoryRegion_def split: if_splits)
  note r = MapPages_null [OF mp]
  have "u64 (?b + ?n) = ?b + ?n"
    using r assms(2,3) by (intro u64_add_no_wrap div_page_size_u64) simp_all
  with r assms(5,6) show ?thesis by (simp add: fill_def)
qed

text \<open>
  The theorem at the allocated area of three pages, projected into the page table of a
  new manager: the third page, \<open>p = 2\<close>.
\<close>

theorem UpdatePageTableForVMA_Allocated_witness:
  "UpdatePageTableForVMA fresh allocated_3pages
     = Inr (fresh\<lparr>attributes := fill (attributes fresh) 0 3 PageMemory,
                   pointers := fill (pointers fresh) 0 3 0,
                   backing_addr := fill (backing_addr fresh) 0 3 0\<rparr>)
   \<and> attributes (fresh\<lparr>attributes := fill (attributes fresh) 0 3 PageMemory,
                   pointers := fill (pointers fresh) 0 3 0,
                   backing_addr := fill (backing_addr fresh) 0 3 0\<rparr>) 2 = PageMemory
   \<and> pointers (fresh\<lparr>attributes := fill (attributes fresh) 0 3 PageMemory,
                   pointers := fill (pointers fresh) 0 3 0,
                   backing_addr := fill (backing_addr fresh) 0 3 0\<rparr>) 2 = 0
   \<and> backing_addr (fresh\<lparr>attributes := fill (attributes fresh) 0 3 PageMemory,
                   pointers := fill (pointers fresh) 0 3 0,
                   backing_addr := fill (backing_addr fresh) 0 3 0\<rparr>) 2 = 0"
proof -
  let ?s' = "fresh\<lparr>attributes := fill (attributes fresh) 0 3 PageMemory,
                   pointers := fill (pointers fresh) 0 3 0,
                   backing_addr := fill (backing_addr fresh) 0 3 0\<rparr>"
  have run: "UpdatePageTableForVMA fresh allocated_3pages = Inr ?s'"
    by (simp add: allocated_3pages_def fresh_def mm_eval)
  have ty: "vma_type allocated_3pages = Allocated"
    and b: "vma_base allocated_3pages < 2 ^ 64"
    and n: "vma_size allocated_3pages < 2 ^ 64"
    by (simp_all add: allocated_3pages_def)
  have lo: "vma_base allocated_3pages div page_size fresh \<le> 2"
    and hi: "2 < vma_base allocated_3pages div page_size fresh
                 + vma_size allocated_3pages div page_size fresh"
    by (simp_all add: allocated_3pages_def fresh_def page_size_def)
  from UpdatePageTableForVMA_Allocated [OF ty b n run lo hi] run
  show ?thesis by (simp add: allocated_3pages_def)
qed

text \<open>
  Claim C1 as stated fails: the first page of the same area is projected with the tag
  \<open>Memory\<close>, not \<open>Unmapped\<close>; its pointer is null.
\<close>

theorem UpdatePageTableForVMA_Allocated_not_Unmapped:
  "vma_type allocated_3pages = Allocated
   \<and> map_sum id (\<lambda>s'. (attributes s' 0, pointers s' 0))
        (UpdatePageTableForVMA fresh allocated_3pages) = Inr (PageMemory, 0)"
  by (simp add: allocated_3pages_def fresh_def mm_eval fill_def)

section \<open>Typed access to pages without host memory\<close>

text \<open>
  Claim C2, as amended. For an address that is out of range, or whose page has a null
  pointer and the tag \<open>Unmapped\<close> (the projection of an \<open>Unmapped\<close> area), \<^verbatim>\<open>Read<T>\<close>
  returns zero and \<^verbatim>\<open>Write<T>\<close> leaves host memory as it was, and neither aborts. For a
  valid address whose page has a null pointer and the tag \<open>Memory\<close> (the projection of an
  \<open>Allocated\<close> area, by claim C1 as amended) both halt on the assertion
  \<^verbatim>\<open>"Mapped memory page without a pointer"\<close>.
\<close>

theorem Read_Write_unbacked:
  "(\<not> IsAddressValid s addr
      \<or> (pointers s (drop_bit (page_bits s) addr) = 0
          \<and> attributes s (drop_bit (page_bits s) addr) = PageUnmapped)
     \<longrightarrow> Read s h n addr = Inr (replicate n 0) \<and> Write s h addr data = Inr h)
   \<and> (IsAddressValid s addr \<and> pointers s (drop_bit (page_bits s) addr) = 0
        \<and> attributes s (drop_bit (page_bits s) addr) = PageMemory
     \<longrightarrow> Read s h n addr = Inl AssertFailed \<and> Write s h addr data = Inl AssertFailed)"
  by (auto simp: Read_def Write_def)

text \<open>
  The theorem at address \<open>0x10\<close> of a new manager (an unmapped page), at the first address
  past the address space, and at address \<open>0x10\<close> after \<^verbatim>\<open>AllocateSpace(0x3000)\<close>.
\<close>

theorem Read_Write_unbacked_witness:
  "Read fresh (\<lambda>a. 7) 4 0x10 = Inr [0, 0, 0, 0]
   \<and> Write fresh (\<lambda>a. 7) 0x10 [1, 2, 3, 4] = Inr (\<lambda>a. 7)
   \<and> Read fresh (\<lambda>a. 7) 4 (2 ^ 40) = Inr [0, 0, 0, 0]
   \<and> Write fresh (\<lambda>a. 7) (2 ^ 40) [1, 2, 3, 4] = Inr (\<lambda>a. 7)
   \<and> Read alloc3 (\<lambda>a. 7) 4 0x10 = Inl AssertFailed
   \<and> Write alloc3 (\<lambda>a. 7) 0x10 [1, 2, 3, 4] = Inl AssertFailed"
proof -
  have a: "pointers fresh (drop_bit (page_bits fresh) 0x10) = 0
           \<and> attributes fresh (drop_bit (page_bits fresh) 0x10) = PageUnmapped"
    by (simp add: fresh_def fill_def drop_bit_eq_div)
  have b: "\<not> IsAddressValid fresh (2 ^ 40)"
    by (simp add: fresh_def IsAddressValid_def pointers_size_def drop_bit_eq_div)
  have c: "IsAddressValid alloc3 0x10 \<and> pointers alloc3 (drop_bit (page_bits alloc3) 0x10) = 0
           \<and> attributes alloc3 (drop_bit (page_bits alloc3) 0x10) = PageMemory"
    by (simp add: alloc3_def fresh_def fill_def IsAddressValid_def pointers_size_def
                  drop_bit_eq_div)
  have r: "replicate 4 (0::u8) = [0, 0, 0, 0]"
    by (simp add: numeral_eq_Suc)
  from a b c
    Read_Write_unbacked [of fresh "0x10" "\<lambda>a. 7" 4 "[1, 2, 3, 4]"]
    Read_Write_unbacked [of fresh "2 ^ 40" "\<lambda>a. 7" 4 "[1, 2, 3, 4]"]
    Read_Write_unbacked [of alloc3 "0x10" "\<lambda>a. 7" 4 "[1, 2, 3, 4]"]
  show ?thesis by (simp only: r) simp
qed

text \<open>
  Claim C2 as stated fails inside an \<open>Allocated\<close> area: after \<^verbatim>\<open>AllocateSpace(0x3000)\<close> on
  a new manager, address \<open>0x10\<close> lies in the allocated area, and both \<^verbatim>\<open>Read<u32>\<close> and
  \<^verbatim>\<open>Write<u32>\<close> end on the assertion.
\<close>

theorem Read_Write_Allocated_asserts:
  "AllocateSpace fresh 0x3000 = Inr (alloc3, 0)
   \<and> FindVMA alloc3 0x10 = Inr 0
   \<and> vma_type (vma_map alloc3 ! 0) = Allocated
   \<and> Read alloc3 (\<lambda>a. 7) 4 0x10 = Inl AssertFailed
   \<and> Write alloc3 (\<lambda>a. 7) 0x10 [1, 2, 3, 4] = Inl AssertFailed"
proof (intro conjI)
  show "AllocateSpace fresh 0x3000 = Inr (alloc3, 0)" by (rule alloc3_run)
  show "FindVMA alloc3 0x10 = Inr 0"
    by (simp add: ex_defs FindVMA_def upper_bound_def address_space_end_def)
  show "vma_type (vma_map alloc3 ! 0) = Allocated" by (simp add: ex_defs)
  show "Read alloc3 (\<lambda>a. 7) 4 0x10 = Inl AssertFailed"
    by (simp add: ex_defs mm_eval fill_def Read_def)
  show "Write alloc3 (\<lambda>a. 7) 0x10 [1, 2, 3, 4] = Inl AssertFailed"
    by (simp add: ex_defs mm_eval fill_def Write_def)
qed

section \<open>The free region chosen by \<^verbatim>\<open>AllocateSpace\<close>\<close>

text \<open>
  Claim C3 at a failing input. With a free page at \<open>0x3000\<close> between two allocations,
  \<^verbatim>\<open>FindFreeRegion(0, 0x2000)\<close> accepts the one-page area (its end, \<open>0x4000\<close>, is at least
  \<open>region_start + size = 0x2000\<close>) and returns \<open>0x3000\<close>, where two pages do not fit;
  \<^verbatim>\<open>AllocateSpace(0x2000)\<close> then ends on the assertion \<^verbatim>\<open>end_in_vma <= vma.size\<close> of
  \<^verbatim>\<open>CarveVMA\<close>. The lowest address at which the range lies in one unmapped area is
  \<open>0x5000\<close>, and allocating there succeeds.
\<close>

theorem AllocateSpace_false_fit:
  "AllocateSpace_at alloc3 0x4000 0x1000 = Inr (alloc3_gap, 0x4000)
   \<and> address_space_base alloc3_gap = 0
   \<and> FindFreeRegion alloc3_gap 0 0x2000 = 0x3000
   \<and> AllocateSpace alloc3_gap 0x2000 = Inl AssertFailed
   \<and> AllocateSpace_at alloc3_gap 0x5000 0x2000
       = Inr (alloc3_gap\<lparr>vma_map :=
                [allocated_3pages,
                 \<lparr>vma_base = 0x3000, vma_size = 0x1000, vma_type = Unmapped,
                  vma_offset = 0, vma_backing_memory = 0, vma_backing_addr = 0\<rparr>,
                 \<lparr>vma_base = 0x4000, vma_size = 0x1000, vma_type = Allocated,
                  vma_offset = 0, vma_backing_memory = 0, vma_backing_addr = 0\<rparr>,
                 \<lparr>vma_base = 0x5000, vma_size = 0x2000, vma_type = Allocated,
                  vma_offset = 0, vma_backing_memory = 0, vma_backing_addr = 0\<rparr>,
                 \<lparr>vma_base = 0x7000, vma_size = 2 ^ 40 - 0x7000, vma_type = Unmapped,
                  vma_offset = 0, vma_backing_memory = 0, vma_backing_addr = 0\<rparr>],
               pointers := fill (pointers alloc3_gap) 5 7 0,
               attributes := fill (attributes alloc3_gap) 5 7 PageMemory,
               backing_addr := fill (backing_addr alloc3_gap) 5 7 0\<rparr>, 0x5000)"
proof (intro conjI)
  show "AllocateSpace_at alloc3 0x4000 0x1000 = Inr (alloc3_gap, 0x4000)"
    by (rule alloc3_gap_run)
  show "address_space_base alloc3_gap = 0" by (simp add: ex_defs)
  show "FindFreeRegion alloc3_gap 0 0x2000 = 0x3000"
    by (simp add: ex_defs FindFreeRegion_def u64_def)
  show "AllocateSpace alloc3_gap 0x2000 = Inl AssertFailed"
    by (simp add: ex_defs mm_eval)
  show "AllocateSpace_at alloc3_gap 0x5000 0x2000
       = Inr (alloc3_gap\<lparr>vma_map :=
                [allocated_3pages,
                 \<lparr>vma_base = 0x3000, vma_size = 0x1000, vma_type = Unmapped,
                  vma_offset = 0, vma_backing_memory = 0, vma_backing_addr = 0\<rparr>,
                 \<lparr>vma_base = 0x4000, vma_size = 0x1000, vma_type = Allocated,
                  vma_offset = 0, vma_backing_memory = 0, vma_backing_addr = 0\<rparr>,
                 \<lparr>vma_base = 0x5000, vma_size = 0x2000, vma_type = Allocated,
                  vma_offset = 0, vma_backing_memory = 0, vma_backing_addr = 0\<rparr>,
                 \<lparr>vma_base = 0x7000, vma_size = 2 ^ 40 - 0x7000, vma_type = Unmapped,
                  vma_offset = 0, vma_backing_memory = 0, vma_backing_addr = 0\<rparr>],
               pointers := fill (pointers alloc3_gap) 5 7 0,
               attributes := fill (attributes alloc3_gap) 5 7 PageMemory,
               backing_addr := fill (backing_addr alloc3_gap) 5 7 0\<rparr>, 0x5000)"
    by (simp add: ex_defs mm_eval)
qed

section \<open>\<^verbatim>\<open>AllocateSpace\<close> when no region is free\<close>

text \<open>
  Claim C4 at a failing input. In the state \<open>full\<close> (a mapped page at \<open>0\<close>, all the rest
  allocated) no area is \<open>Unmapped\<close>, so \<^verbatim>\<open>FindFreeRegion\<close> returns its \<^verbatim>\<open>{}\<close>, the address
  \<open>0\<close>. \<^verbatim>\<open>AllocateSpace(0x1000)\<close> does not test it: it runs
  \<^verbatim>\<open>AllocateMemory(0, 0, 0x1000)\<close>, which turns the mapped page at \<open>0\<close> into an allocated
  one and clears its page-table pointer, and then returns \<open>0\<close>. The map and the page table
  are not left as they were.
\<close>

theorem AllocateSpace_exhausted_mutates:
  "MapBufferEx fresh 0x7000000 True 0x100000 0x1000 = Inr (mapped1, 0)
   \<and> AllocateSpace mapped1 (2 ^ 40 - 0x1000) = Inr (full, 0x1000)
   \<and> map vma_type (vma_map full) = [Mapped, Allocated]
   \<and> pointers full 0 = 0x7000000
   \<and> FindFreeRegion full (address_space_base full) 0x1000 = 0
   \<and> map_sum id (\<lambda>(s', g). (g, map vma_type (vma_map s'), pointers s' 0))
        (AllocateSpace full 0x1000) = Inr (0, [Allocated, Allocated], 0)"
proof (intro conjI)
  show "MapBufferEx fresh 0x7000000 True 0x100000 0x1000 = Inr (mapped1, 0)"
    by (rule mapped1_run)
  show "AllocateSpace mapped1 (2 ^ 40 - 0x1000) = Inr (full, 0x1000)"
    by (rule full_run)
  show "map vma_type (vma_map full) = [Mapped, Allocated]" by (simp add: ex_defs)
  show "pointers full 0 = 0x7000000" by (simp add: ex_defs fill_def)
  show "FindFreeRegion full (address_space_base full) 0x1000 = 0"
    by (simp add: ex_defs FindFreeRegion_def)
  show "map_sum id (\<lambda>(s', g). (g, map vma_type (vma_map s'), pointers s' 0))
        (AllocateSpace full 0x1000) = Inr (0, [Allocated, Allocated], 0)"
    by (simp add: ex_defs mm_eval fill_def)
qed

section \<open>The canonical form of the map\<close>

text \<open>
  Claim C7 at a failing input. On a new manager, \<^verbatim>\<open>AllocateSpace(0x3000)\<close>,
  \<^verbatim>\<open>MapBufferEx(cpu, 0, 0x1000)\<close> and \<^verbatim>\<open>UnmapBuffer(0, 0x2000)\<close> all return; before the
  last call no two neighbours can be merged, after it the first two areas,
  \<open>[0, 0x2000)\<close> and \<open>[0x2000, 0x3000)\<close>, are both \<open>Allocated\<close> with contiguous offsets:
  \<^verbatim>\<open>CarveVMARange\<close> split the allocated area at \<open>0x2000\<close>, the processed head absorbed the
  left half, and the loop ended without visiting the right half.
\<close>

theorem UnmapBuffer_leaves_mergeable_pair:
  "AllocateSpace fresh 0x3000 = Inr (alloc3, 0)
   \<and> MapBufferEx_at alloc3 0x7000000 True 0x100000 0 0x1000 = Inr (mapped_head, 0)
   \<and> CanBeMergedWith (vma_map mapped_head ! 0) (vma_map mapped_head ! 1) = Inr False
   \<and> CanBeMergedWith (vma_map mapped_head ! 1) (vma_map mapped_head ! 2) = Inr False
   \<and> UnmapBuffer mapped_head True 0 0x2000
       = Inr ([FlushAndInvalidateRegion 0x7000000 0x2000], unmapped_head, 0)
   \<and> CanBeMergedWith (vma_map unmapped_head ! 0) (vma_map unmapped_head ! 1) = Inr True"
proof (intro conjI)
  show "AllocateSpace fresh 0x3000 = Inr (alloc3, 0)" by (rule alloc3_run)
  show "MapBufferEx_at alloc3 0x7000000 True 0x100000 0 0x1000 = Inr (mapped_head, 0)"
    by (rule mapped_head_run)
  show "CanBeMergedWith (vma_map mapped_head ! 0) (vma_map mapped_head ! 1) = Inr False"
    by (simp add: ex_defs CanBeMergedWith_def u64_def)
  show "CanBeMergedWith (vma_map mapped_head ! 1) (vma_map mapped_head ! 2) = Inr False"
    by (simp add: ex_defs CanBeMergedWith_def u64_def)
  show "UnmapBuffer mapped_head True 0 0x2000
       = Inr ([FlushAndInvalidateRegion 0x7000000 0x2000], unmapped_head, 0)"
    by (rule unmapped_head_run)
  show "CanBeMergedWith (vma_map unmapped_head ! 0) (vma_map unmapped_head ! 1) = Inr True"
    by (simp add: ex_defs CanBeMergedWith_def u64_def)
qed

section \<open>Null page pointers in \<^verbatim>\<open>ReadBlock\<close> and \<^verbatim>\<open>WriteBlock\<close>\<close>

text \<open>
  Claim C9 at a failing input. After \<^verbatim>\<open>AllocateSpace(0x3000)\<close> on a new manager, page
  \<open>0\<close> has the tag \<open>Memory\<close> and a null pointer; \<^verbatim>\<open>ReadBlock\<close> and \<^verbatim>\<open>WriteBlock\<close>
  take the \<open>Memory\<close> case and copy through the null pointer, with no assertion.
\<close>

theorem ReadBlock_WriteBlock_null_pointer:
  "AllocateSpace fresh 0x3000 = Inr (alloc3, 0)
   \<and> attributes alloc3 0 = PageMemory
   \<and> pointers alloc3 0 = 0
   \<and> ReadBlock alloc3 (\<lambda>a. 7) 0x10 1 = Inl NullPointer
   \<and> WriteBlock alloc3 (\<lambda>a. 7) 0x10 [1] 1 = Inl NullPointer"
proof (intro conjI)
  show "AllocateSpace fresh 0x3000 = Inr (alloc3, 0)" by (rule alloc3_run)
  show "attributes alloc3 0 = PageMemory" by (simp add: ex_defs fill_def)
  show "pointers alloc3 0 = 0" by (simp add: ex_defs fill_def)
  show "ReadBlock alloc3 (\<lambda>a. 7) 0x10 1 = Inl NullPointer"
    by (simp add: ex_defs fill_def ReadBlock_def ReadBlock_loop.simps and_page_mask
          drop_page_bits page_size_def pointers_size_def)
  show "WriteBlock alloc3 (\<lambda>a. 7) 0x10 [1] 1 = Inl NullPointer"
    by (simp add: ex_defs fill_def WriteBlock_def WriteBlock_loop.simps and_page_mask
          drop_page_bits page_size_def pointers_size_def)
qed

section \<open>\<^verbatim>\<open>ReadBlockUnsafe\<close>\<close>

lemma u64_u64_add: "u64 (u64 a + b) = u64 (a + b)"
  by (simp add: u64_def mod_add_left_eq)

lemma map_upt_split:
  assumes "c \<le> r"
  shows "map f [0..<r] = map f [0..<c] @ map (\<lambda>i. f (c + i)) [0..<r - c]"
proof -
  have "[0..<r] = [0..<c] @ [c..<r]"
    using assms by (metis le_add_diff_inverse upt_add_eq_append zero_le)
  moreover have "[c..<r] = map (\<lambda>i. c + i) [0..<r - c]"
    using assms by (simp add: map_add_upt add.commute)
  ultimately show ?thesis by (simp add: comp_def)
qed

lemma ReadBlockUnsafe_loop_bytes:
  assumes "off < page_size s"
    and "0 < r \<longrightarrow> (pi * page_size s + off + r - 1) div page_size s < pointers_size s"
  shows "ReadBlockUnsafe_loop s h pi off r
         = Inr ([], map (\<lambda>i. if pointers s ((pi * page_size s + off + i) div page_size s) \<noteq> 0
                          then h (u64 (pointers s ((pi * page_size s + off + i) div page_size s)
                                       + (pi * page_size s + off + i) mod page_size s))
                          else 0) [0..<r])"
  using assms
proof (induction s h pi off r rule: ReadBlockUnsafe_loop.induct)
  case (1 s h pi off r)
  let ?ps = "page_size s"
  define byte_at where
    "byte_at = (\<lambda>a. if pointers s (a div ?ps) \<noteq> 0
                     then h (u64 (pointers s (a div ?ps) + a mod ?ps)) else 0)"
  have goal_eq: "(\<lambda>b i. if pointers s ((b + i) div ?ps) \<noteq> 0
                          then h (u64 (pointers s ((b + i) div ?ps) + (b + i) mod ?ps))
                          else 0) = (\<lambda>b i. byte_at (b + i))"
    by (simp add: byte_at_def)
  show ?case
  proof (cases "0 < r")
    case False
    then show ?thesis by (simp add: ReadBlockUnsafe_loop.simps)
  next
    case True
    define c where "c = min (?ps - off) r"
    have c_pos: "0 < c" and c_le: "c \<le> r" and c_off: "off + c \<le> ?ps"
      using True "1.prems"(1) by (auto simp: c_def)
    have "pi * ?ps \<le> pi * ?ps + off + r - 1" using True by simp
    then have "pi * ?ps div ?ps \<le> (pi * ?ps + off + r - 1) div ?ps"
      by (rule div_le_mono)
    then have inb: "\<not> pointers_size s \<le> pi"
      using "1.prems"(2) True page_size_pos [of s] by simp
    have rest_bound: "0 < r - c \<longrightarrow> ((pi + 1) * ?ps + 0 + (r - c) - 1) div ?ps < pointers_size s"
    proof
      assume "0 < r - c"
      then have "c = ?ps - off" by (auto simp: c_def min_def split: if_splits)
      then have "(pi + 1) * ?ps + 0 + (r - c) - 1 = pi * ?ps + off + r - 1"
        using c_le c_off "1.prems"(1) by (simp add: algebra_simps)
      with "1.prems"(2) True show "((pi + 1) * ?ps + 0 + (r - c) - 1) div ?ps < pointers_size s"
        by simp
    qed
    have IH: "ReadBlockUnsafe_loop s h (pi + 1) 0 (r - c)
              = Inr ([], map (\<lambda>i. byte_at ((pi + 1) * ?ps + 0 + i)) [0..<r - c])"
      using "1.IH" [OF True c_def inb refl refl page_size_pos rest_bound]
      by (simp only: byte_at_def)
    have rest: "map (\<lambda>i. byte_at ((pi + 1) * ?ps + 0 + i)) [0..<r - c]
                = map (\<lambda>i. byte_at (pi * ?ps + off + (c + i))) [0..<r - c]"
    proof (cases "0 < r - c")
      case False
      then show ?thesis by simp
    next
      case True
      then have "c = ?ps - off" by (auto simp: c_def min_def split: if_splits)
      then have "\<And>i. (pi + 1) * ?ps + 0 + i = pi * ?ps + off + (c + i)"
        using "1.prems"(1) by (simp add: algebra_simps)
      then show ?thesis by (simp only:)
    qed
    have chunk: "(if pointers s pi \<noteq> 0
                  then read_bytes h (u64 (pointers s pi + off)) c
                  else replicate c 0)
                 = map (\<lambda>i. byte_at (pi * ?ps + off + i)) [0..<c]"
    proof -
      have dm: "\<And>i. i < c \<Longrightarrow> (pi * ?ps + off + i) div ?ps = pi
                               \<and> (pi * ?ps + off + i) mod ?ps = off + i"
        using c_off by (simp add: add.assoc)
      show ?thesis
      proof (cases "pointers s pi = 0")
        case True
        with dm show ?thesis
          by (auto simp: byte_at_def map_replicate_const [symmetric] simp del: replicate_eq_replicate
                   intro!: nth_equalityI)
      next
        case False
        with dm show ?thesis
          by (auto simp: byte_at_def read_bytes_def u64_u64_add add.assoc)
      qed
    qed
    show ?thesis
      unfolding goal_eq [THEN fun_cong]
      apply (subst ReadBlockUnsafe_loop.simps)
      using True inb IH chunk rest c_le
      apply (simp add: Let_def c_def [symmetric] map_upt_split [OF c_le, where f = "\<lambda>i. byte_at (pi * ?ps + off + i)"])
      done
  qed
qed

text \<open>
  Claim C8. For a range whose pages are all pages of the table (an index past the end of
  the vectors is undefined in the source), \<^verbatim>\<open>ReadBlockUnsafe(src_addr, dest, size)\<close>
  returns with no call to the rasterizer, and the \<open>i\<close>-th byte of the destination is the
  host byte at \<open>pointers[p] + offset\<close> when the page \<open>p\<close> of \<open>src_addr + i\<close> has a non-null
  pointer, and zero when the pointer of that page is null.
\<close>

theorem ReadBlockUnsafe_bytes:
  assumes "0 < sz \<longrightarrow> (src_addr + sz - 1) div page_size s < pointers_size s"
  shows "ReadBlockUnsafe s h src_addr sz
         = Inr ([], map (\<lambda>i. if pointers s ((src_addr + i) div page_size s) \<noteq> 0
                          then h (u64 (pointers s ((src_addr + i) div page_size s)
                                       + (src_addr + i) mod page_size s))
                          else 0) [0..<sz])"
proof -
  let ?ps = "page_size s"
  have split: "src_addr div ?ps * ?ps + src_addr mod ?ps = src_addr" by simp
  have "src_addr mod ?ps < ?ps" using page_size_pos [of s] by simp
  moreover have "0 < sz \<longrightarrow>
      (src_addr div ?ps * ?ps + src_addr mod ?ps + sz - 1) div ?ps < pointers_size s"
    using assms by (simp only: split)
  ultimately have "ReadBlockUnsafe_loop s h (src_addr div ?ps) (src_addr mod ?ps) sz
         = Inr ([], map (\<lambda>i. if pointers s ((src_addr div ?ps * ?ps + src_addr mod ?ps + i) div ?ps) \<noteq> 0
                          then h (u64 (pointers s ((src_addr div ?ps * ?ps + src_addr mod ?ps + i) div ?ps)
                                       + (src_addr div ?ps * ?ps + src_addr mod ?ps + i) mod ?ps))
                          else 0) [0..<sz])"
    by (rule ReadBlockUnsafe_loop_bytes)
  then show ?thesis
    by (simp only: split ReadBlockUnsafe_def drop_page_bits and_page_mask)
qed

text \<open>
  The theorem on four bytes at \<open>0xffe\<close> in the state \<open>mapped_head\<close>: two bytes from the end
  of the mapped page \<open>0\<close> (host memory holds at each address its low byte), two zero
  bytes for the page \<open>1\<close>, whose pointer is null.
\<close>

theorem ReadBlockUnsafe_bytes_witness:
  "ReadBlockUnsafe mapped_head (\<lambda>a. of_nat a) 0xffe 4 = Inr ([], [0xfe, 0xff, 0, 0])"
proof -
  have inside: "0 < (4::nat) \<longrightarrow> (0xffe + 4 - 1) div page_size mapped_head < pointers_size mapped_head"
    by (simp add: ex_defs page_size_def pointers_size_def)
  have upt4: "[0..<4] = [0, 1, 2, 3::nat]"
    by (simp add: upt_rec)
  show ?thesis
    unfolding ReadBlockUnsafe_bytes [OF inside] upt4
    by (simp add: ex_defs page_size_def fill_def u64_def)
qed

section \<open>\<^verbatim>\<open>WriteBlock\<close> followed by \<^verbatim>\<open>ReadBlock\<close>\<close>















end
